theory Spec2Isabelle
  imports Complex_Main
begin

section \<open>The lunar lander of moon-landing.js\<close>

text \<open>
  The script keeps one \<open>LunarLander\<close> object and mutates it from two places: the
  interval timer calls \<open>updatePhysics()\<close>, the input prompt calls \<open>setThrust(n)\<close>.
  JavaScript is single threaded, so each call runs to completion; a call is modelled as
  a function from the object before the call to the object after it.

  Numbers are modelled as mathematical reals, the reading the specification gives them
  (\<open>altitude: real\<close>, \<open>setThrust(requested: real)\<close>); rounding of IEEE doubles, \<open>NaN\<close>
  and the infinities are outside the model. The clock reading \<open>Date.now()\<close> is an
  argument of the function that reads it.
\<close>

subsection \<open>Constants\<close>

definition GRAVITY :: real where
  "GRAVITY = 1.625"

definition THRUST_POWER :: real where
  "THRUST_POWER = 0.15"

definition FUEL_CONSUMPTION_RATE :: real where
  "FUEL_CONSUMPTION_RATE = 0.1"

subsection \<open>The object\<close>

text \<open>\<open>impactVelocity\<close> starts as \<open>null\<close>: \<open>None\<close>.\<close>

record LunarLander =
  altitude :: real
  velocity :: real
  fuel :: real
  safeLandingSpeed :: real
  thrust :: real
  landed :: bool
  crashed :: bool
  outOfFuel :: bool
  lastUpdateTime :: real
  impactVelocity :: "real option"

text \<open>The constructor; \<open>now\<close> is the value of \<open>Date.now()\<close> when it runs.\<close>

definition newLunarLander :: "real \<Rightarrow> real \<Rightarrow> real \<Rightarrow> real \<Rightarrow> real \<Rightarrow> LunarLander" where
  "newLunarLander now initialAltitude initialVelocity initialFuel safeSpeed =
     \<lparr> altitude = initialAltitude,
       velocity = initialVelocity,
       fuel = initialFuel,
       safeLandingSpeed = safeSpeed,
       thrust = 0,
       landed = False,
       crashed = False,
       outOfFuel = False,
       lastUpdateTime = now,
       impactVelocity = None \<rparr>"

text \<open>
  The specification's \<open>outcome\<close> is read off the two flags in the order in which
  \<open>displayFinalReport\<close> tests them: \<open>landed\<close>, then \<open>crashed\<close>, otherwise the
  flight has not ended.
\<close>

datatype Outcome = InFlight | Landed | Crashed

definition outcome :: "LunarLander \<Rightarrow> Outcome" where
  "outcome s = (if landed s then Landed else if crashed s then Crashed else InFlight)"

subsection \<open>updatePhysics\<close>

text \<open>
  The body of \<open>updatePhysics\<close>, statement by statement. \<open>s0\<close> is the object after
  the assignment to \<open>lastUpdateTime\<close>, \<open>s1\<close> after the fuel block, \<open>s2\<close> after the
  velocity update, \<open>s3\<close> after the altitude update. The fuel block yields the local
  variable \<open>thrustAccel\<close> (assigned before the fuel is deducted, 0 when the block is
  not entered) together with the object.
\<close>

definition updatePhysics :: "real \<Rightarrow> LunarLander \<Rightarrow> LunarLander" where
  "updatePhysics now s =
     (if landed s \<or> crashed s then s
      else
        let dt = (now - lastUpdateTime s) / 1000;
            s0 = s\<lparr>lastUpdateTime := now\<rparr>;
            (thrustAccel, s1) =
              (if fuel s0 > 0 then
                 let thrustAccel = thrust s0 * THRUST_POWER;
                     fuelConsumed = thrust s0 * FUEL_CONSUMPTION_RATE * dt;
                     b = s0\<lparr>fuel := fuel s0 - fuelConsumed\<rparr>
                 in (thrustAccel,
                     if fuel b \<le> 0 then b\<lparr>fuel := 0, outOfFuel := True, thrust := 0\<rparr>
                     else b)
               else if \<not> outOfFuel s0 then (0, s0\<lparr>outOfFuel := True, thrust := 0\<rparr>)
               else (0, s0));
            netAccel = GRAVITY - thrustAccel;
            s2 = s1\<lparr>velocity := velocity s1 + netAccel * dt\<rparr>;
            s3 = s2\<lparr>altitude := altitude s2 - velocity s2 * dt\<rparr>
        in if altitude s3 \<le> 0 then
             let impact = velocity s3;
                 c = s3\<lparr>altitude := 0, impactVelocity := Some impact\<rparr>;
                 d = (if impact \<le> safeLandingSpeed c then c\<lparr>landed := True\<rparr>
                      else c\<lparr>crashed := True\<rparr>)
             in d\<lparr>velocity := 0, thrust := 0\<rparr>
           else s3)"

text \<open>
  The specification's \<open>tick(dt)\<close>: a call of \<open>updatePhysics\<close> made \<open>dt\<close> seconds
  (\<open>1000 * dt\<close> milliseconds) after the previous clock reading, so that the source's
  \<open>(now - this.lastUpdateTime) / 1000.0\<close> is \<open>dt\<close>.
\<close>

definition tick :: "real \<Rightarrow> LunarLander \<Rightarrow> LunarLander" where
  "tick dt s = updatePhysics (lastUpdateTime s + 1000 * dt) s"

text \<open>A sequence of ticks, one per element of the list, first element first.\<close>

fun ticks :: "real list \<Rightarrow> LunarLander \<Rightarrow> LunarLander" where
  "ticks [] s = s"
| "ticks (dt # dts) s = ticks dts (tick dt s)"

text \<open>
  The two values the step computes before it tests for contact: the velocity after
  \<open>this.velocity += netAccel * dt\<close> and the altitude after
  \<open>this.altitude -= this.velocity * dt\<close>, as functions of the object before the call.
\<close>

definition velocityAfter :: "real \<Rightarrow> LunarLander \<Rightarrow> real" where
  "velocityAfter dt s =
     velocity s + (GRAVITY - (if fuel s > 0 then thrust s * THRUST_POWER else 0)) * dt"

definition altitudeAfter :: "real \<Rightarrow> LunarLander \<Rightarrow> real" where
  "altitudeAfter dt s = altitude s - velocityAfter dt s * dt"

subsection \<open>setThrust\<close>

definition setThrust :: "real \<Rightarrow> LunarLander \<Rightarrow> LunarLander" where
  "setThrust newThrust s =
     (if landed s \<or> crashed s then s\<lparr>thrust := 0\<rparr>
      else
        let clampedThrust = max 0 (min 100 newThrust);
            clampedThrust = (if fuel s \<le> 0 then 0 else clampedThrust)
        in s\<lparr>thrust := clampedThrust\<rparr>)"

subsection \<open>Reading the pilot's line\<close>

text \<open>
  A JavaScript string is a sequence of UTF-16 code units, here natural numbers.
  \<open>ascii\<close> writes one from an ASCII literal.
\<close>

type_synonym js_string = "nat list"

definition ascii :: "string \<Rightarrow> js_string" where
  "ascii cs = map of_char cs"

text \<open>
  The code units that \<open>String.prototype.trim\<close> and \<open>parseInt\<close> skip: ECMAScript's
  WhiteSpace and LineTerminator (tab, LF, VT, FF, CR, space, NBSP, U+1680,
  U+2000..U+200A, U+2028, U+2029, U+202F, U+205F, U+3000, U+FEFF).
\<close>

definition isWhiteSpace :: "nat \<Rightarrow> bool" where
  "isWhiteSpace c =
     ((9 \<le> c \<and> c \<le> 13) \<or> c = 32 \<or> c = 160 \<or> c = 5760 \<or>
      (8192 \<le> c \<and> c \<le> 8202) \<or> c = 8232 \<or> c = 8233 \<or> c = 8239 \<or>
      c = 8287 \<or> c = 12288 \<or> c = 65279)"

definition isDigit :: "nat \<Rightarrow> bool" where
  "isDigit c = (48 \<le> c \<and> c \<le> 57)"

definition trim :: "js_string \<Rightarrow> js_string" where
  "trim str = rev (dropWhile isWhiteSpace (rev (dropWhile isWhiteSpace str)))"

text \<open>The value of a run of decimal digits, most significant first.\<close>

definition digitsValue :: "js_string \<Rightarrow> int" where
  "digitsValue Z = foldl (\<lambda>acc c. 10 * acc + int (c - 48)) 0 Z"

text \<open>
  \<open>parseInt(str, 10)\<close>: leading white space is skipped, one sign is read, then the
  longest run of decimal digits; with no digit the result is \<open>NaN\<close>, here \<open>None\<close>.
  (Code unit 45 is \<open>-\<close>, 43 is \<open>+\<close>.)
\<close>

definition parseInt10 :: "js_string \<Rightarrow> int option" where
  "parseInt10 str =
     (let S = dropWhile isWhiteSpace str;
          sign = (if S \<noteq> [] \<and> hd S = 45 then - 1 else 1);
          S' = (if S \<noteq> [] \<and> (hd S = 43 \<or> hd S = 45) then tl S else S);
          Z = takeWhile isDigit S'
      in if Z = [] then None else Some (sign * digitsValue Z))"

subsection \<open>askForThrust\<close>

text \<open>
  What \<open>moonLanding\<close> shares between the timer and the prompt: the lander, the flag
  \<open>gameRunning\<close>, whether the readline interface is closed, and the lines written to
  the console by the prompt.
\<close>

record Game =
  lander :: LunarLander
  gameRunning :: bool
  rlClosed :: bool
  console :: "string list"

definition invalidInputNotice :: string where
  "invalidInputNotice = ''Invalid input. Please enter a number.''"

text \<open>
  \<open>askForThrust\<close> from the point where \<open>rl.question\<close> has delivered \<open>answer\<close>:
  the check after the \<open>await\<close>, \<open>parseInt(answer, 10)\<close>, and the two branches.
\<close>

definition askForThrust :: "js_string \<Rightarrow> Game \<Rightarrow> Game" where
  "askForThrust answer g =
     (if \<not> gameRunning g \<or> rlClosed g then g
      else
        case parseInt10 answer of
          Some thrustInput \<Rightarrow> g\<lparr>lander := setThrust (of_int thrustInput) (lander g)\<rparr>
        | None \<Rightarrow>
            if trim answer \<noteq> [] then g\<lparr>console := console g @ [invalidInputNotice]\<rparr>
            else g)"

text \<open>
  The shared state when the flight starts: \<open>gameRunning = true\<close>, the readline
  interface open, nothing printed by the prompt yet.
\<close>

definition newGame :: "LunarLander \<Rightarrow> Game" where
  "newGame l = \<lparr> lander = l, gameRunning = True, rlClosed = False, console = [] \<rparr>"

subsection \<open>The earlier script with fixed parameters\<close>

text \<open>
  The repository also holds an earlier lander with no mission parameters, one loop
  iteration per prompt and no time step. It is modelled for comparison only.
\<close>

record LunarLander_v2 =
  altitude_v2 :: real
  velocity_v2 :: real
  fuel_v2 :: real
  thrust_v2 :: real
  gravity_v2 :: real
  engineOn_v2 :: bool

definition newLunarLander_v2 :: LunarLander_v2 where
  "newLunarLander_v2 =
     \<lparr> altitude_v2 = 1000, velocity_v2 = 50, fuel_v2 = 1200, thrust_v2 = 0,
       gravity_v2 = 1.625, engineOn_v2 = False \<rparr>"

definition updatePhysics_v2 :: "LunarLander_v2 \<Rightarrow> LunarLander_v2" where
  "updatePhysics_v2 s =
     (let thrustAccel = (thrust_v2 s * 0.1) * (if fuel_v2 s > 0 then 1 else 0);
          netAccel = gravity_v2 s - thrustAccel;
          s1 = s\<lparr>velocity_v2 := velocity_v2 s + netAccel\<rparr>;
          s2 = s1\<lparr>altitude_v2 := altitude_v2 s1 - velocity_v2 s1\<rparr>;
          s3 = (if fuel_v2 s2 > 0
                then s2\<lparr>fuel_v2 := max 0 (fuel_v2 s2 - thrust_v2 s2 * 0.1)\<rparr>
                else s2)
      in s3\<lparr>altitude_v2 := max 0 (altitude_v2 s3)\<rparr>)"

text \<open>
  The thrust one iteration of its loop stores, \<open>Math.min(100, Math.max(0,
  parseInt(input) || 0))\<close>; the result of \<open>parseInt(input)\<close> is the argument, \<open>None\<close>
  for \<open>NaN\<close>.
\<close>

definition thrustFromInput_v2 :: "int option \<Rightarrow> real" where
  "thrustFromInput_v2 parsed =
     min 100 (max 0 (case parsed of
                       None \<Rightarrow> 0
                     | Some n \<Rightarrow> if n = 0 then 0 else of_int n))"

text \<open>What one iteration of its loop prints after the physics update.\<close>

datatype Message_v2 = SuccessfulLanding | CrashTooFast | FuelOut | NoMessage

definition landingCheck_v2 :: "LunarLander_v2 \<Rightarrow> Message_v2" where
  "landingCheck_v2 s =
     (if altitude_v2 s \<le> 0 then
        (if velocity_v2 s < 5 then SuccessfulLanding else CrashTooFast)
      else if fuel_v2 s \<le> 0 \<and> thrust_v2 s > 0 then FuelOut
      else NoMessage)"

section \<open>Auxiliary facts\<close>

lemma outcome_InFlight_iff: "outcome s = InFlight \<longleftrightarrow> \<not> landed s \<and> \<not> crashed s"
  by (simp add: outcome_def)

text \<open>
  The same body with the pair of the fuel block taken apart: the thrust acceleration
  and the object after the block as two separate conditionals.
\<close>

lemma updatePhysics_flat:
  "updatePhysics now s =
     (if landed s \<or> crashed s then s
      else
        let dt = (now - lastUpdateTime s) / 1000;
            s0 = s\<lparr>lastUpdateTime := now\<rparr>;
            thrustAccel = (if fuel s0 > 0 then thrust s0 * THRUST_POWER else 0);
            s1 = (if fuel s0 > 0 then
                    let fuelConsumed = thrust s0 * FUEL_CONSUMPTION_RATE * dt;
                        b = s0\<lparr>fuel := fuel s0 - fuelConsumed\<rparr>
                    in if fuel b \<le> 0 then b\<lparr>fuel := 0, outOfFuel := True, thrust := 0\<rparr>
                       else b
                  else if \<not> outOfFuel s0 then s0\<lparr>outOfFuel := True, thrust := 0\<rparr>
                  else s0);
            netAccel = GRAVITY - thrustAccel;
            s2 = s1\<lparr>velocity := velocity s1 + netAccel * dt\<rparr>;
            s3 = s2\<lparr>altitude := altitude s2 - velocity s2 * dt\<rparr>
        in if altitude s3 \<le> 0 then
             let impact = velocity s3;
                 c = s3\<lparr>altitude := 0, impactVelocity := Some impact\<rparr>;
                 d = (if impact \<le> safeLandingSpeed c then c\<lparr>landed := True\<rparr>
                      else c\<lparr>crashed := True\<rparr>)
             in d\<lparr>velocity := 0, thrust := 0\<rparr>
           else s3)"
  by (simp add: updatePhysics_def Let_def)

lemma updatePhysics_terminal: "landed s \<or> crashed s \<Longrightarrow> updatePhysics now s = s"
  by (simp add: updatePhysics_def)

text \<open>Every call of \<open>updatePhysics\<close> is the tick of the time that has passed.\<close>

lemma tick_elapsed: "lastUpdateTime s + 1000 * ((now - lastUpdateTime s) / 1000) = now"
  by (simp add: field_simps)

lemma updatePhysics_as_tick: "updatePhysics now s = tick ((now - lastUpdateTime s) / 1000) s"
  unfolding tick_def tick_elapsed by (rule refl)

lemma tick_terminal: "outcome s \<noteq> InFlight \<Longrightarrow> tick dt s = s"
  by (simp add: tick_def outcome_InFlight_iff updatePhysics_terminal)

lemma ticks_terminal: "outcome s \<noteq> InFlight \<Longrightarrow> ticks dts s = s"
  by (induction dts) (simp_all add: tick_terminal)

lemma ticks_append: "ticks (xs @ ys) s = ticks ys (ticks xs s)"
  by (induction xs arbitrary: s) simp_all

text \<open>The fuel after a tick, in terms of the object before it.\<close>

lemma tick_fuel:
  "fuel (tick dt s) =
     (if landed s \<or> crashed s \<or> fuel s \<le> 0 then fuel s
      else if fuel s - thrust s * FUEL_CONSUMPTION_RATE * dt \<le> 0 then 0
      else fuel s - thrust s * FUEL_CONSUMPTION_RATE * dt)"
  by (simp add: tick_def updatePhysics_flat Let_def)

text \<open>A tick in flight that reaches the ground, and one that does not.\<close>

lemma tick_touchdown:
  assumes "\<not> landed s" "\<not> crashed s" "altitudeAfter dt s \<le> 0"
  shows "altitude (tick dt s) = 0"
    and "velocity (tick dt s) = 0"
    and "thrust (tick dt s) = 0"
    and "impactVelocity (tick dt s) = Some (velocityAfter dt s)"
    and "landed (tick dt s) = (velocityAfter dt s \<le> safeLandingSpeed s)"
    and "crashed (tick dt s) = (\<not> velocityAfter dt s \<le> safeLandingSpeed s)"
  using assms
  by (auto simp add: tick_def updatePhysics_flat Let_def altitudeAfter_def velocityAfter_def)

lemma tick_airborne:
  assumes "\<not> landed s" "\<not> crashed s" "\<not> altitudeAfter dt s \<le> 0"
  shows "altitude (tick dt s) = altitudeAfter dt s"
    and "velocity (tick dt s) = velocityAfter dt s"
    and "impactVelocity (tick dt s) = impactVelocity s"
    and "landed (tick dt s) = False"
    and "crashed (tick dt s) = False"
  using assms
  by (auto simp add: tick_def updatePhysics_flat Let_def altitudeAfter_def velocityAfter_def)

text \<open>
  The thrust is never negative once it is not: the constructor stores 0, \<open>setThrust\<close>
  stores a value between 0 and 100, and a tick keeps the thrust or cuts it to 0.
\<close>

lemma newLunarLander_thrust: "thrust (newLunarLander now a v f sp) = 0"
  by (simp add: newLunarLander_def)

lemma setThrust_range: "0 \<le> thrust (setThrust x s) \<and> thrust (setThrust x s) \<le> 100"
  by (simp add: setThrust_def Let_def)

lemma tick_thrust_nonneg: "0 \<le> thrust s \<Longrightarrow> 0 \<le> thrust (tick dt s)"
  by (simp add: tick_def updatePhysics_flat Let_def)

lemma ticks_thrust_nonneg: "0 \<le> thrust s \<Longrightarrow> 0 \<le> thrust (ticks dts s)"
  by (induction dts arbitrary: s) (simp_all add: tick_thrust_nonneg)

lemma tick_fuel_le: "0 \<le> thrust s \<Longrightarrow> 0 \<le> dt \<Longrightarrow> fuel (tick dt s) \<le> fuel s"
  by (simp add: tick_fuel FUEL_CONSUMPTION_RATE_def)

lemma tick_fuel_nonneg: "0 \<le> fuel s \<Longrightarrow> 0 \<le> fuel (tick dt s)"
  by (simp add: tick_fuel)

lemma ticks_fuel_nonneg: "0 \<le> fuel s \<Longrightarrow> 0 \<le> fuel (ticks dts s)"
  by (induction dts arbitrary: s) (simp_all add: tick_fuel_nonneg)

lemma ticks_fuel_le:
  "0 \<le> thrust s \<Longrightarrow> \<forall>d\<in>set dts. 0 < d \<Longrightarrow> fuel (ticks dts s) \<le> fuel s"
proof (induction dts arbitrary: s)
  case Nil
  then show ?case by simp
next
  case (Cons d dts)
  have "fuel (ticks dts (tick d s)) \<le> fuel (tick d s)"
    using Cons by (simp add: tick_thrust_nonneg)
  also have "\<dots> \<le> fuel s"
    using Cons.prems by (simp add: tick_fuel_le)
  finally show ?case by simp
qed

text \<open>A line of white space only: \<open>trim\<close> leaves nothing and \<open>parseInt\<close> finds no digit.\<close>

lemma dropWhile_all: "(\<forall>c\<in>set str. P c) \<Longrightarrow> dropWhile P str = []"
  by (induction str) simp_all

lemma trim_Nil_iff: "trim str = [] \<longleftrightarrow> (\<forall>c\<in>set str. isWhiteSpace c)"
proof
  assume "trim str = []"
  then have all: "\<forall>c\<in>set (dropWhile isWhiteSpace str). isWhiteSpace c"
    by (simp add: trim_def)
  have "\<not> (\<exists>c\<in>set str. \<not> isWhiteSpace c)"
  proof
    assume "\<exists>c\<in>set str. \<not> isWhiteSpace c"
    then have ne: "dropWhile isWhiteSpace str \<noteq> []"
      by simp
    then have "\<not> isWhiteSpace (hd (dropWhile isWhiteSpace str))"
      by (rule hd_dropWhile)
    moreover from ne have "hd (dropWhile isWhiteSpace str) \<in> set (dropWhile isWhiteSpace str)"
      by (rule hd_in_set)
    ultimately show False using all by blast
  qed
  then show "\<forall>c\<in>set str. isWhiteSpace c"
    by blast
next
  assume "\<forall>c\<in>set str. isWhiteSpace c"
  then have dw: "dropWhile isWhiteSpace str = []"
    by (rule dropWhile_all)
  show "trim str = []"
    unfolding trim_def dw by simp
qed

lemma parseInt10_blank:
  assumes "trim str = []"
  shows "parseInt10 str = None"
proof -
  from assms have "\<forall>c\<in>set str. isWhiteSpace c"
    by (simp only: trim_Nil_iff)
  then have dw: "dropWhile isWhiteSpace str = []"
    by (rule dropWhile_all)
  show ?thesis
    unfolding parseInt10_def dw by simp
qed

section \<open>Properties of updatePhysics\<close>

text \<open>
  C1. A tick in flight whose altitude update reaches the ground (altitude at or below 0)
  sets the altitude to exactly 0, records as impact velocity the velocity the step had
  just computed, zeroes the velocity, and ends the flight: landed when the impact
  velocity is at most the safe landing speed, crashed when it is above. An impact
  velocity equal to the safe landing speed is a landing.
\<close>

theorem updatePhysics_touchdown:
  assumes "outcome s = InFlight" and "altitudeAfter dt s \<le> 0"
  shows "altitude (tick dt s) = 0 \<and>
         impactVelocity (tick dt s) = Some (velocityAfter dt s) \<and>
         velocity (tick dt s) = 0 \<and>
         outcome (tick dt s) =
           (if velocityAfter dt s \<le> safeLandingSpeed s then Landed else Crashed) \<and>
         (velocityAfter dt s = safeLandingSpeed s \<longrightarrow> outcome (tick dt s) = Landed)"
proof -
  from assms(1) have fl: "\<not> landed s" "\<not> crashed s"
    by (simp_all add: outcome_InFlight_iff)
  note td = tick_touchdown [OF fl assms(2)]
  have "outcome (tick dt s) =
          (if velocityAfter dt s \<le> safeLandingSpeed s then Landed else Crashed)"
    by (simp add: outcome_def td(5,6))
  with td(1,2,4) show ?thesis by simp
qed

text \<open>
  The landing at the limit: altitude 1, velocity 3.375, no fuel, safe speed 5, one
  second. The velocity becomes 3.375 + 1.625 = 5, the altitude 1 - 5.
\<close>

theorem updatePhysics_touchdown_witness:
  "outcome (newLunarLander 0 1 3.375 0 5) = InFlight \<and>
   altitudeAfter 1 (newLunarLander 0 1 3.375 0 5) \<le> 0 \<and>
   velocityAfter 1 (newLunarLander 0 1 3.375 0 5) = safeLandingSpeed (newLunarLander 0 1 3.375 0 5) \<and>
   altitude (tick 1 (newLunarLander 0 1 3.375 0 5)) = 0 \<and>
   impactVelocity (tick 1 (newLunarLander 0 1 3.375 0 5)) = Some 5 \<and>
   velocity (tick 1 (newLunarLander 0 1 3.375 0 5)) = 0 \<and>
   outcome (tick 1 (newLunarLander 0 1 3.375 0 5)) = Landed"
  using updatePhysics_touchdown [of "newLunarLander 0 1 3.375 0 5" 1]
  by (simp add: newLunarLander_def outcome_def altitudeAfter_def velocityAfter_def GRAVITY_def)

text \<open>
  C2. A tick in flight with fuel left and a positive time step takes the thrust
  acceleration \<open>thrust * THRUST_POWER\<close> and the consumption
  \<open>thrust * FUEL_CONSUMPTION_RATE * dt\<close> from the thrust before the call. When the
  deduction leaves no fuel, the fuel is exactly 0, the out-of-fuel flag is set and the
  thrust is 0; otherwise the fuel is the difference and the flag is as before. In both
  cases the velocity the step computes adds \<open>(GRAVITY - thrust * THRUST_POWER) * dt\<close>
  with the thrust before the cut; that velocity is the new velocity, or the recorded
  impact velocity when the step reaches the ground.
\<close>

theorem updatePhysics_fuel_cut:
  assumes "outcome s = InFlight" and "0 < fuel s" and "0 < dt"
  shows "(fuel s - thrust s * FUEL_CONSUMPTION_RATE * dt \<le> 0 \<longrightarrow>
            fuel (tick dt s) = 0 \<and> outOfFuel (tick dt s) \<and> thrust (tick dt s) = 0) \<and>
         (0 < fuel s - thrust s * FUEL_CONSUMPTION_RATE * dt \<longrightarrow>
            fuel (tick dt s) = fuel s - thrust s * FUEL_CONSUMPTION_RATE * dt \<and>
            outOfFuel (tick dt s) = outOfFuel s) \<and>
         velocityAfter dt s = velocity s + (GRAVITY - thrust s * THRUST_POWER) * dt \<and>
         (if altitudeAfter dt s \<le> 0
          then impactVelocity (tick dt s) = Some (velocityAfter dt s)
          else velocity (tick dt s) = velocityAfter dt s)"
proof -
  from assms(1) have fl: "\<not> landed s" "\<not> crashed s"
    by (simp_all add: outcome_InFlight_iff)
  have cut: "fuel s - thrust s * FUEL_CONSUMPTION_RATE * dt \<le> 0 \<longrightarrow>
            fuel (tick dt s) = 0 \<and> outOfFuel (tick dt s) \<and> thrust (tick dt s) = 0"
    using fl assms(2) by (simp add: tick_def updatePhysics_flat Let_def)
  have keep: "0 < fuel s - thrust s * FUEL_CONSUMPTION_RATE * dt \<longrightarrow>
            fuel (tick dt s) = fuel s - thrust s * FUEL_CONSUMPTION_RATE * dt \<and>
            outOfFuel (tick dt s) = outOfFuel s"
    using fl assms(2) by (simp add: tick_def updatePhysics_flat Let_def)
  have va: "velocityAfter dt s = velocity s + (GRAVITY - thrust s * THRUST_POWER) * dt"
    using assms(2) by (simp add: velocityAfter_def)
  have vel: "if altitudeAfter dt s \<le> 0
          then impactVelocity (tick dt s) = Some (velocityAfter dt s)
          else velocity (tick dt s) = velocityAfter dt s"
    using fl tick_touchdown(4) [of s dt] tick_airborne(2) [of s dt] by simp
  from cut keep va vel show ?thesis by blast
qed

text \<open>
  Five kilograms of fuel at full thrust for one second: the tick wants 10, the engine
  is cut, and the velocity still changes by 1.625 - 15.
\<close>

theorem updatePhysics_fuel_cut_witness:
  "outcome (setThrust 100 (newLunarLander 0 5 0 5 5)) = InFlight \<and>
   0 < fuel (setThrust 100 (newLunarLander 0 5 0 5 5)) \<and> (0::real) < 1 \<and>
   fuel (setThrust 100 (newLunarLander 0 5 0 5 5))
     - thrust (setThrust 100 (newLunarLander 0 5 0 5 5)) * FUEL_CONSUMPTION_RATE * 1 \<le> 0 \<and>
   fuel (tick 1 (setThrust 100 (newLunarLander 0 5 0 5 5))) = 0 \<and>
   outOfFuel (tick 1 (setThrust 100 (newLunarLander 0 5 0 5 5))) \<and>
   thrust (tick 1 (setThrust 100 (newLunarLander 0 5 0 5 5))) = 0 \<and>
   velocity (tick 1 (setThrust 100 (newLunarLander 0 5 0 5 5))) = - 13.375"
  using updatePhysics_fuel_cut [of "setThrust 100 (newLunarLander 0 5 0 5 5)" 1]
  by (simp add: newLunarLander_def setThrust_def outcome_def altitudeAfter_def velocityAfter_def
      GRAVITY_def THRUST_POWER_def FUEL_CONSUMPTION_RATE_def)

text \<open>
  C3. Take a lander with fuel at least 0 and a thrust that is not negative (the thrust
  command of the data model lies between 0 and 100; see \<open>newLunarLander_thrust\<close> and
  \<open>setThrust_range\<close>), and any sequence of ticks with positive time steps, \<open>dts\<close>
  followed by one more tick \<open>dt\<close>. The last tick does not raise the fuel, the fuel at
  the end is at most the fuel at the start, and it is not negative. If the thrust is 0
  when the last tick runs, that tick leaves the fuel as it is; if its deduction would
  take the fuel to 0 or below, the fuel is exactly 0 afterwards.
\<close>

theorem ticks_fuel_monotone:
  assumes "0 \<le> fuel s" and "0 \<le> thrust s" and "\<forall>d\<in>set (dts @ [dt]). 0 < d"
  shows "fuel (ticks (dts @ [dt]) s) \<le> fuel (ticks dts s) \<and>
         fuel (ticks (dts @ [dt]) s) \<le> fuel s \<and>
         0 \<le> fuel (ticks (dts @ [dt]) s) \<and>
         (thrust (ticks dts s) = 0 \<longrightarrow> fuel (ticks (dts @ [dt]) s) = fuel (ticks dts s)) \<and>
         (outcome (ticks dts s) = InFlight \<and> 0 < fuel (ticks dts s) \<and>
          fuel (ticks dts s) - thrust (ticks dts s) * FUEL_CONSUMPTION_RATE * dt \<le> 0 \<longrightarrow>
            fuel (ticks (dts @ [dt]) s) = 0)"
proof -
  let ?m = "ticks dts s"
  have last: "ticks (dts @ [dt]) s = tick dt ?m"
    by (simp add: ticks_append)
  have "0 \<le> thrust ?m"
    using assms(2) by (rule ticks_thrust_nonneg)
  moreover have "0 \<le> dt"
    using assms(3) by simp
  ultimately have step: "fuel (tick dt ?m) \<le> fuel ?m"
    by (rule tick_fuel_le)
  have whole: "fuel (ticks (dts @ [dt]) s) \<le> fuel s"
    using assms(2,3) by (rule ticks_fuel_le)
  have nonneg: "0 \<le> fuel (ticks (dts @ [dt]) s)"
    using assms(1) by (rule ticks_fuel_nonneg)
  have idle: "thrust ?m = 0 \<longrightarrow> fuel (tick dt ?m) = fuel ?m"
    by (simp add: tick_fuel)
  have cross: "outcome ?m = InFlight \<and> 0 < fuel ?m \<and>
      fuel ?m - thrust ?m * FUEL_CONSUMPTION_RATE * dt \<le> 0 \<longrightarrow> fuel (tick dt ?m) = 0"
    by (simp add: tick_fuel outcome_InFlight_iff)
  from step whole nonneg idle cross show ?thesis
    unfolding last by blast
qed

text \<open>
  Fifteen kilograms at full thrust, two ticks of one second: 15, then 5, then 0 (the
  second deduction of 10 would cross zero).
\<close>

theorem ticks_fuel_monotone_witness:
  "0 \<le> fuel (setThrust 100 (newLunarLander 0 1000 0 15 5)) \<and>
   0 \<le> thrust (setThrust 100 (newLunarLander 0 1000 0 15 5)) \<and>
   (0::real) < 1 \<and>
   fuel (ticks [1] (setThrust 100 (newLunarLander 0 1000 0 15 5))) = 5 \<and>
   fuel (ticks ([1] @ [1]) (setThrust 100 (newLunarLander 0 1000 0 15 5))) = 0 \<and>
   fuel (ticks ([1] @ [1]) (setThrust 100 (newLunarLander 0 1000 0 15 5)))
     \<le> fuel (ticks [1] (setThrust 100 (newLunarLander 0 1000 0 15 5)))"
  using ticks_fuel_monotone [of "setThrust 100 (newLunarLander 0 1000 0 15 5)" "[1]" 1]
  by (simp add: tick_def updatePhysics_flat setThrust_def newLunarLander_def outcome_def Let_def
      GRAVITY_def THRUST_POWER_def FUEL_CONSUMPTION_RATE_def)

text \<open>
  C4. From an altitude of at least 0 and for every positive time step, the altitude after
  the tick is at least 0. In flight, whenever the altitude update arrives at or below 0,
  by whatever amount, the altitude after the tick is exactly 0; otherwise it is the
  updated altitude.
\<close>

theorem tick_altitude_floor:
  assumes "0 \<le> altitude s" and "0 < dt"
  shows "0 \<le> altitude (tick dt s) \<and>
         (outcome s = InFlight \<and> altitudeAfter dt s \<le> 0 \<longrightarrow> altitude (tick dt s) = 0) \<and>
         (outcome s = InFlight \<and> 0 < altitudeAfter dt s \<longrightarrow>
            altitude (tick dt s) = altitudeAfter dt s)"
proof (cases "outcome s = InFlight")
  case False
  then show ?thesis using assms(1) by (simp add: tick_terminal)
next
  case True
  then have fl: "\<not> landed s" "\<not> crashed s"
    by (simp_all add: outcome_InFlight_iff)
  show ?thesis
  proof (cases "altitudeAfter dt s \<le> 0")
    case True
    with tick_touchdown(1) [OF fl True] show ?thesis by simp
  next
    case False
    with tick_airborne(1) [OF fl False] show ?thesis by simp
  qed
qed

text \<open>
  A step of 1000 seconds from 10 metres without fuel: the altitude update gives
  10 - 1625 * 1000, the altitude after the tick is 0.
\<close>

theorem tick_altitude_floor_witness:
  "0 \<le> altitude (newLunarLander 0 10 0 0 5) \<and> (0::real) < 1000 \<and>
   outcome (newLunarLander 0 10 0 0 5) = InFlight \<and>
   altitudeAfter 1000 (newLunarLander 0 10 0 0 5) = - 1624990 \<and>
   altitude (tick 1000 (newLunarLander 0 10 0 0 5)) = 0"
  using tick_altitude_floor [of "newLunarLander 0 10 0 0 5" 1000]
  by (simp add: newLunarLander_def outcome_def altitudeAfter_def velocityAfter_def GRAVITY_def)

text \<open>
  C5. Once the lander has landed or crashed, \<open>updatePhysics\<close> returns the object as
  it is, whatever the clock reads: one tick and any sequence of ticks, with any time
  steps, leave every field (altitude, velocity, fuel, thrust, the out-of-fuel flag, the
  outcome, the impact velocity) unchanged.
\<close>

theorem ticks_terminal_noop:
  assumes "outcome s \<noteq> InFlight"
  shows "updatePhysics now s = s \<and> tick dt s = s \<and> ticks dts s = s"
  using assms
  by (simp add: tick_terminal ticks_terminal updatePhysics_terminal outcome_InFlight_iff)

text \<open>
  A crash (10 metres, 20 m/s downward, no fuel, one second: impact at 21.625 m/s),
  then more ticks.
\<close>

theorem ticks_terminal_noop_witness:
  "outcome (tick 1 (newLunarLander 0 10 20 0 5)) = Crashed \<and>
   impactVelocity (tick 1 (newLunarLander 0 10 20 0 5)) = Some 21.625 \<and>
   ticks [1, 2] (tick 1 (newLunarLander 0 10 20 0 5)) = tick 1 (newLunarLander 0 10 20 0 5) \<and>
   updatePhysics 9000 (tick 1 (newLunarLander 0 10 20 0 5)) = tick 1 (newLunarLander 0 10 20 0 5)"
  using ticks_terminal_noop [of "tick 1 (newLunarLander 0 10 20 0 5)" 9000 1 "[1, 2]"]
  by (simp add: tick_def updatePhysics_flat newLunarLander_def outcome_def Let_def GRAVITY_def)

text \<open>
  C7. A lander built with altitude 5, velocity 0 and fuel 1000 (any clock reading, any
  safe landing speed) and set to thrust 100 has thrust acceleration 100 * 0.15 = 15 and
  net acceleration 1.625 - 15 = -13.375. After one tick of one second its velocity is
  -13.375 (upward), its altitude 5 + 13.375 = 18.375, its fuel 990, and it is still in
  flight.
\<close>

theorem scenario_B_full_thrust:
  "thrust (setThrust 100 (newLunarLander t0 5 0 1000 safe)) * THRUST_POWER = 15 \<and>
   GRAVITY - thrust (setThrust 100 (newLunarLander t0 5 0 1000 safe)) * THRUST_POWER = - 13.375 \<and>
   velocity (tick 1 (setThrust 100 (newLunarLander t0 5 0 1000 safe))) = - 13.375 \<and>
   altitude (tick 1 (setThrust 100 (newLunarLander t0 5 0 1000 safe))) = 18.375 \<and>
   fuel (tick 1 (setThrust 100 (newLunarLander t0 5 0 1000 safe))) = 990 \<and>
   outcome (tick 1 (setThrust 100 (newLunarLander t0 5 0 1000 safe))) = InFlight"
  by (simp add: tick_def updatePhysics_flat setThrust_def newLunarLander_def outcome_def Let_def
      GRAVITY_def THRUST_POWER_def FUEL_CONSUMPTION_RATE_def)

section \<open>Properties of setThrust\<close>

text \<open>
  The out-of-fuel flag does not decide what \<open>setThrust\<close> stores. A lander built with
  no fuel is in flight and its flag is still false before the first tick; asked for 50,
  \<open>setThrust\<close> stores 0, not the clamped request.
\<close>

theorem setThrust_flag_counterexample:
  "\<not> (thrust (setThrust 50 (newLunarLander 0 10 0 0 5)) =
        (if outOfFuel (newLunarLander 0 10 0 0 5) \<or> outcome (newLunarLander 0 10 0 0 5) \<noteq> InFlight
         then 0 else min 100 (max 0 50)))"
  by (simp add: setThrust_def newLunarLander_def outcome_def)

text \<open>
  C6, amended. For every real \<open>x\<close> and every state, \<open>setThrust x\<close> stores
  \<open>min 100 (max 0 x)\<close> as thrust, except that it stores 0 when the fuel is at most 0
  or the flight has ended. The function is total: no request is rejected.
\<close>

theorem setThrust_stores:
  "thrust (setThrust x s) =
     (if fuel s \<le> 0 \<or> outcome s \<noteq> InFlight then 0 else min 100 (max 0 x))"
  by (auto simp add: setThrust_def Let_def outcome_InFlight_iff min_def max_def)

theorem setThrust_stores_witness:
  "thrust (setThrust 250 (newLunarLander 0 1000 50 1200 5)) = 100 \<and>
   thrust (setThrust (- 3) (newLunarLander 0 1000 50 1200 5)) = 0 \<and>
   thrust (setThrust 42 (newLunarLander 0 1000 50 1200 5)) = 42 \<and>
   thrust (setThrust 42 (newLunarLander 0 1000 50 0 5)) = 0"
  using setThrust_stores [of 250 "newLunarLander 0 1000 50 1200 5"]
    setThrust_stores [of "- 3" "newLunarLander 0 1000 50 1200 5"]
    setThrust_stores [of 42 "newLunarLander 0 1000 50 1200 5"]
    setThrust_stores [of 42 "newLunarLander 0 1000 50 0 5"]
  by (simp add: newLunarLander_def outcome_def)

text \<open>
  C8. For every state and every requested value, \<open>setThrust\<close> changes at most the
  \<open>thrust\<close> field: altitude, velocity, fuel, the out-of-fuel flag, the two outcome
  flags (hence the outcome), the impact velocity, the safe landing speed and the last
  clock reading are what they were. In particular it consumes no fuel.
\<close>

theorem setThrust_frame:
  "altitude (setThrust x s) = altitude s \<and>
   velocity (setThrust x s) = velocity s \<and>
   fuel (setThrust x s) = fuel s \<and>
   outOfFuel (setThrust x s) = outOfFuel s \<and>
   landed (setThrust x s) = landed s \<and>
   crashed (setThrust x s) = crashed s \<and>
   outcome (setThrust x s) = outcome s \<and>
   impactVelocity (setThrust x s) = impactVelocity s \<and>
   safeLandingSpeed (setThrust x s) = safeLandingSpeed s \<and>
   lastUpdateTime (setThrust x s) = lastUpdateTime s \<and>
   setThrust x s = s\<lparr>thrust := thrust (setThrust x s)\<rparr>"
  by (simp add: setThrust_def outcome_def Let_def)

text \<open>
  C10. In flight with fuel at most 0, \<open>setThrust\<close> stores 0 whatever is requested,
  also while the out-of-fuel flag is still false: the test is on the fuel.
\<close>

theorem setThrust_no_fuel:
  assumes "fuel s \<le> 0" and "outcome s = InFlight"
  shows "thrust (setThrust x s) = 0"
  using assms by (simp add: setThrust_def Let_def)

text \<open>A mission built with no fuel, before its first tick.\<close>

theorem setThrust_no_fuel_witness:
  "fuel (newLunarLander 0 10 0 0 5) \<le> 0 \<and>
   outcome (newLunarLander 0 10 0 0 5) = InFlight \<and>
   \<not> outOfFuel (newLunarLander 0 10 0 0 5) \<and>
   thrust (setThrust 50 (newLunarLander 0 10 0 0 5)) = 0"
  using setThrust_no_fuel [of "newLunarLander 0 10 0 0 5" 50]
  by (simp add: newLunarLander_def outcome_def)

section \<open>Properties of askForThrust\<close>

text \<open>
  A line of one space is not empty and has no number in it, yet nothing is printed:
  the test the prompt makes is on the trimmed line.
\<close>

theorem askForThrust_blank_counterexample:
  "\<not> (ascii '' '' \<noteq> [] \<and> parseInt10 (ascii '' '') = None \<longrightarrow>
        console (askForThrust (ascii '' '') (newGame (newLunarLander 0 1000 50 1200 5))) =
          console (newGame (newLunarLander 0 1000 50 1200 5)) @ [invalidInputNotice])"
  by (simp add: askForThrust_def newGame_def ascii_def parseInt10_def trim_def
      isWhiteSpace_def isDigit_def digitsValue_def)

text \<open>
  C9, amended. While the game is running and the prompt is open, for every lander and
  every line: if \<open>parseInt\<close> reads a number from the line, the lander's thrust is set
  by \<open>setThrust\<close> to it and nothing is printed; if it reads none and the line has a
  character that is not white space, the notice is printed and the lander is unchanged;
  if the line is empty or all white space, nothing changes and nothing is printed.
\<close>

theorem askForThrust_line:
  assumes "gameRunning g" and "\<not> rlClosed g"
  shows "(\<forall>n. parseInt10 answer = Some n \<longrightarrow>
            askForThrust answer g = g\<lparr>lander := setThrust (of_int n) (lander g)\<rparr>) \<and>
         (parseInt10 answer = None \<and> trim answer \<noteq> [] \<longrightarrow>
            askForThrust answer g = g\<lparr>console := console g @ [invalidInputNotice]\<rparr> \<and>
            lander (askForThrust answer g) = lander g) \<and>
         (trim answer = [] \<longrightarrow> askForThrust answer g = g)"
  using assms by (auto simp add: askForThrust_def parseInt10_blank)

text \<open>The lines \<open>50\<close>, \<open>abc\<close> and a single space, on a lander whose thrust is 0.\<close>

theorem askForThrust_line_witness:
  "gameRunning (newGame (newLunarLander 0 1000 50 1200 5)) \<and>
   \<not> rlClosed (newGame (newLunarLander 0 1000 50 1200 5)) \<and>
   parseInt10 (ascii ''50'') = Some 50 \<and>
   thrust (lander (askForThrust (ascii ''50'') (newGame (newLunarLander 0 1000 50 1200 5)))) = 50 \<and>
   parseInt10 (ascii ''abc'') = None \<and>
   trim (ascii ''abc'') = ascii ''abc'' \<and>
   console (askForThrust (ascii ''abc'') (newGame (newLunarLander 0 1000 50 1200 5))) =
     [invalidInputNotice] \<and>
   thrust (lander (askForThrust (ascii ''abc'') (newGame (newLunarLander 0 1000 50 1200 5)))) = 0 \<and>
   trim (ascii '' '') = [] \<and>
   askForThrust (ascii '' '') (newGame (newLunarLander 0 1000 50 1200 5)) =
     newGame (newLunarLander 0 1000 50 1200 5)"
  using askForThrust_line [of "newGame (newLunarLander 0 1000 50 1200 5)" "ascii ''50''"]
    askForThrust_line [of "newGame (newLunarLander 0 1000 50 1200 5)" "ascii ''abc''"]
    askForThrust_line [of "newGame (newLunarLander 0 1000 50 1200 5)" "ascii '' ''"]
  by (simp add: newGame_def newLunarLander_def setThrust_def ascii_def parseInt10_def trim_def
      isWhiteSpace_def isDigit_def digitsValue_def)

section \<open>The earlier script compared\<close>

text \<open>
  The earlier script differs from the one above in three places the properties touch:
  its landing test is strict (a touchdown at exactly 5 m/s is reported as a crash), a
  line with no number in it sets the thrust to 0 without a notice, and its thrust factor
  is 0.1 per iteration, so full thrust from altitude 5 at rest gives velocity -8.375
  and altitude 13.375.
\<close>

lemma landingCheck_v2_strict:
  "altitude_v2 s \<le> 0 \<Longrightarrow> velocity_v2 s = 5 \<Longrightarrow> landingCheck_v2 s = CrashTooFast"
  by (simp add: landingCheck_v2_def)

lemma thrustFromInput_v2_NaN: "thrustFromInput_v2 None = 0"
  by (simp add: thrustFromInput_v2_def)

lemma updatePhysics_v2_full_thrust:
  "velocity_v2 (updatePhysics_v2
      (newLunarLander_v2\<lparr>altitude_v2 := 5, velocity_v2 := 0, fuel_v2 := 1000, thrust_v2 := 100\<rparr>))
     = - 8.375 \<and>
   altitude_v2 (updatePhysics_v2
      (newLunarLander_v2\<lparr>altitude_v2 := 5, velocity_v2 := 0, fuel_v2 := 1000, thrust_v2 := 100\<rparr>))
     = 13.375"
  by (simp add: updatePhysics_v2_def newLunarLander_v2_def Let_def)

end
